theory Spec2Isabelle
  imports Main "HOL-Library.Word" "HOL-Library.List_Lexorder"
begin

section \<open>JavaScript values used by the program\<close>

text \<open>
  A JavaScript string is a sequence of UTF-16 code units. The order of
  \<^theory_text>\<open>List_Lexorder\<close> on lists of 16-bit words is the one
  \<^verbatim>\<open>Array.prototype.sort()\<close> uses without a comparator: code unit by code unit,
  a proper prefix first. \<open>lit\<close> writes an ASCII literal of the source.
\<close>

type_synonym jsstring = "16 word list"

definition lit :: "string \<Rightarrow> jsstring" where
  "lit s = map (\<lambda>c. of_char c) s"

text \<open>Truthiness of an optional string: \<^verbatim>\<open>undefined\<close> and \<^verbatim>\<open>""\<close> are falsy.\<close>

definition truthy :: "jsstring option \<Rightarrow> bool" where
  "truthy v = (case v of None \<Rightarrow> False | Some s \<Rightarrow> s \<noteq> [])"

text \<open>What a template literal \<^verbatim>\<open>`${v}`\<close> writes for an optional string.\<close>

definition interp :: "jsstring option \<Rightarrow> jsstring" where
  "interp v = (case v of None \<Rightarrow> lit ''undefined'' | Some s \<Rightarrow> s)"

text \<open>\<^verbatim>\<open>xs.join(sep)\<close> on an array of strings.\<close>

fun join :: "jsstring \<Rightarrow> jsstring list \<Rightarrow> jsstring" where
  "join sep [] = []"
| "join sep [x] = x"
| "join sep (x # y # ys) = x @ sep @ join sep (y # ys)"

text \<open>
  A JavaScript \<^verbatim>\<open>Set\<close> of strings: its elements in insertion order, each once.
  \<open>new_Set\<close> is \<^verbatim>\<open>new Set(array)\<close>, \<open>Set_add\<close> is \<^verbatim>\<open>set.add(x)\<close>,
  \<open>Set_has\<close> is \<^verbatim>\<open>set.has(x)\<close>, and spreading \<^verbatim>\<open>[...set]\<close> is the list itself.
\<close>

definition Set_add :: "'a \<Rightarrow> 'a list \<Rightarrow> 'a list" where
  "Set_add x s = (if x \<in> set s then s else s @ [x])"

definition new_Set :: "'a list \<Rightarrow> 'a list" where
  "new_Set xs = fold Set_add xs []"

definition Set_has :: "'a list \<Rightarrow> 'a \<Rightarrow> bool" where
  "Set_has s x = (x \<in> set s)"

text \<open>\<^verbatim>\<open>v ?? []\<close> on an optional array.\<close>

definition or_empty :: "'a list option \<Rightarrow> 'a list" where
  "or_empty v = (case v of None \<Rightarrow> [] | Some xs \<Rightarrow> xs)"

section \<open>Thrown values\<close>

text \<open>
  What a \<^verbatim>\<open>throw\<close> can carry to the \<^verbatim>\<open>catch\<close> of the dispatcher: a
  \<^verbatim>\<open>ZodError\<close> with its issues, another \<^verbatim>\<open>Error\<close> with its message, or a value
  that is no \<^verbatim>\<open>Error\<close>, kept as \<^verbatim>\<open>String(err)\<close>.
\<close>

record ZodIssue =
  path :: "jsstring list"
  message :: jsstring

datatype thrown = ZodError "ZodIssue list" | Error jsstring | NonError jsstring

type_synonym 'a promise = "thrown + 'a"

section \<open>pact-broker-client.ts: the data\<close>

record PactBrokerConfig =
  brokerUrl :: jsstring
  authToken :: "jsstring option"
  bearerToken :: "jsstring option"

text \<open>
  The interfaces of the revision of pact-broker-client.ts that declares
  \<^verbatim>\<open>canIDeploy\<close>. An optional property is an \<open>option\<close>, and so is a property that
  the code guards with \<^verbatim>\<open>?.\<close> or \<^verbatim>\<open>??\<close>. A name cannot start with an underscore:
  \<^verbatim>\<open>_embedded\<close> is \<open>embedded\<close> and \<^verbatim>\<open>_links.self\<close> is \<open>links_self\<close>; the optional
  \<^verbatim>\<open>name\<close> of a link is \<open>link_name\<close>.

  \<open>Named\<close> is an object with a \<^verbatim>\<open>name: string\<close> property; the interfaces that have
  one extend it. The hypermedia links of a pacticipant (\<^verbatim>\<open>_links\<close>) are read by no
  function and left out.
\<close>

record Named =
  name :: jsstring

record Pacticipant = Named +
  displayName :: "jsstring option"
  repositoryUrl :: "jsstring option"
  repositoryName :: "jsstring option"
  mainBranch :: "jsstring option"
  createdAt :: "jsstring option"
  updatedAt :: "jsstring option"

record PacticipantsResponse =
  pacticipants :: "Pacticipant list option"

text \<open>The body of \<^verbatim>\<open>GET /pacticipants\<close>: \<^verbatim>\<open>{ _embedded: PacticipantsResponse }\<close>.\<close>

record PacticipantsBody =
  embedded :: "PacticipantsResponse option"

record ProviderState = Named +
  params :: "(jsstring \<times> jsstring) list option"

record Interaction =
  description :: jsstring
  providerStates :: "ProviderState list option"
  providerState :: "jsstring option"

record Pact =
  consumer :: Named
  provider :: Named
  interactions :: "Interaction list option"

record SelfLink =
  href :: jsstring
  link_name :: "jsstring option"
  title :: "jsstring option"

record PactVersion =
  consumer :: Named
  provider :: Named
  pactUrl :: jsstring
  createdAt :: "jsstring option"
  links_self :: SelfLink

text \<open>The raw element of \<^verbatim>\<open>GET /pacts/latest\<close>, \<^verbatim>\<open>LatestPactRawResponse\<close>.\<close>

record RawEmbedded =
  consumer :: Named
  provider :: Named

record LatestPactRawResponse =
  createdAt :: "jsstring option"
  embedded :: RawEmbedded
  links_self :: "SelfLink list"

record LatestPactsApiResponse =
  pacts :: "LatestPactRawResponse list option"

record ProviderStateWithConsumers = Named +
  consumers :: "jsstring list"

record ProviderStatesResponse =
  providerStates :: "ProviderStateWithConsumers list option"

record Summary =
  deployable :: bool
  reason :: jsstring
  unknown :: "int option"

text \<open>
  A row of the matrix. No function reads one; the fields \<^verbatim>\<open>version\<close> and
  \<^verbatim>\<open>pact\<close> carry a prefix here, the names being parameters of functions below.
\<close>

record Version =
  number :: jsstring

record VersionedParty = Named +
  party_version :: Version

record MatrixVerification =
  success :: bool
  verifiedAt :: "jsstring option"

record MatrixPact =
  createdAt :: "jsstring option"

record MatrixRow =
  consumer :: VersionedParty
  provider :: VersionedParty
  verificationResult :: "MatrixVerification option"
  row_pact :: "MatrixPact option"

record CanIDeployResponse =
  summary :: Summary
  matrix :: "MatrixRow list option"

section \<open>pact-broker-client.ts: the HTTP helper\<close>

definition buildHeaders :: "PactBrokerConfig \<Rightarrow> (jsstring \<rightharpoonup> jsstring)" where
  "buildHeaders config =
     (let headers = [lit ''Content-Type'' \<mapsto> lit ''application/json'',
                     lit ''Accept'' \<mapsto> lit ''application/hal+json, application/json'']
      in if truthy (bearerToken config)
         then headers(lit ''Authorization'' \<mapsto> lit ''Bearer '' @ interp (bearerToken config))
         else if truthy (authToken config)
         then headers(lit ''Authorization'' \<mapsto> lit ''Basic '' @ interp (authToken config))
         else headers)"

text \<open>
  The registry as \<^verbatim>\<open>fetchJSON\<close> sees it: for each URL template the client requests,
  the outcome of \<^verbatim>\<open>fetchJSON(url, config)\<close>, which is the parsed body or the
  \<^verbatim>\<open>Error\<close> thrown on a status that is not 2xx, on a network failure or on a body
  that is not JSON. The outcome may depend on the configuration (base URL and
  credentials) and on the names substituted into the path.

  Twelve handlers of index.ts call client functions that are not embedded here
  (most are in no revision of pact-broker-client.ts under src/). For those,
  \<open>other_handlers b tool config input\<close> is the outcome of the handler's body after
  validation and \<^verbatim>\<open>buildConfig\<close>: the text of its envelope, or what it throws.
\<close>

record broker =
  GET_pacticipants :: "PactBrokerConfig \<Rightarrow> PacticipantsBody promise"
  GET_pacts_latest :: "PactBrokerConfig \<Rightarrow> LatestPactsApiResponse promise"
  GET_provider_states :: "PactBrokerConfig \<Rightarrow> jsstring \<Rightarrow> ProviderStatesResponse promise"
  GET_matrix :: "PactBrokerConfig \<Rightarrow> jsstring \<Rightarrow> jsstring \<Rightarrow> jsstring \<Rightarrow> CanIDeployResponse promise"
  other_handlers :: "jsstring \<Rightarrow> PactBrokerConfig \<Rightarrow> (jsstring \<times> jsstring) list \<Rightarrow> jsstring promise"

section \<open>pact-broker-client.ts: the public functions\<close>

definition listPacticipants :: "broker \<Rightarrow> PactBrokerConfig \<Rightarrow> Pacticipant list promise" where
  "listPacticipants b config =
     (case GET_pacticipants b config of
        Inl e \<Rightarrow> Inl e
      | Inr data \<Rightarrow>
          Inr (case PacticipantsBody.embedded data of
                 None \<Rightarrow> []
               | Some r \<Rightarrow> or_empty (pacticipants r)))"

definition transformRawPact :: "LatestPactRawResponse \<Rightarrow> PactVersion" where
  "transformRawPact rawPact =
     \<lparr>PactVersion.consumer = \<lparr>name = name (RawEmbedded.consumer (LatestPactRawResponse.embedded rawPact))\<rparr>,
      PactVersion.provider = \<lparr>name = name (RawEmbedded.provider (LatestPactRawResponse.embedded rawPact))\<rparr>,
      pactUrl = (case LatestPactRawResponse.links_self rawPact of [] \<Rightarrow> [] | l # _ \<Rightarrow> href l),
      PactVersion.createdAt = LatestPactRawResponse.createdAt rawPact,
      PactVersion.links_self =
        \<lparr>href = (case LatestPactRawResponse.links_self rawPact of [] \<Rightarrow> [] | l # _ \<Rightarrow> href l),
         link_name = (case LatestPactRawResponse.links_self rawPact of [] \<Rightarrow> None | l # _ \<Rightarrow> link_name l),
         title = (case LatestPactRawResponse.links_self rawPact of [] \<Rightarrow> None | l # _ \<Rightarrow> title l)\<rparr>\<rparr>"

definition getLatestPacts :: "broker \<Rightarrow> PactBrokerConfig \<Rightarrow> PactVersion list promise" where
  "getLatestPacts b config =
     (case GET_pacts_latest b config of
        Inl e \<Rightarrow> Inl e
      | Inr data \<Rightarrow> Inr (map transformRawPact (or_empty (pacts data))))"

definition listProviders :: "broker \<Rightarrow> PactBrokerConfig \<Rightarrow> Pacticipant list promise" where
  "listProviders b config =
     (case listPacticipants b config of
        Inl e \<Rightarrow> Inl e
      | Inr allPacticipants \<Rightarrow>
          (case getLatestPacts b config of
             Inl e \<Rightarrow> Inl e
           | Inr latestPacts \<Rightarrow>
               (let providerNames = new_Set (map (\<lambda>p. name (PactVersion.provider p)) latestPacts)
                in Inr (filter (\<lambda>p. Set_has providerNames (name p)) allPacticipants))))"

definition getProviderStates ::
  "broker \<Rightarrow> PactBrokerConfig \<Rightarrow> jsstring \<Rightarrow> ProviderStateWithConsumers list promise" where
  "getProviderStates b config providerName =
     (case GET_provider_states b config providerName of
        Inl e \<Rightarrow> Inl e
      | Inr data \<Rightarrow> Inr (or_empty (ProviderStatesResponse.providerStates data)))"

text \<open>
  \<open>toLowerCase\<close> stands for \<^verbatim>\<open>String.prototype.toLowerCase\<close>, a function of the
  JavaScript runtime and not of this repository: the two filters take it as a
  parameter.
\<close>

definition getProviderPacts ::
  "(jsstring \<Rightarrow> jsstring) \<Rightarrow> broker \<Rightarrow> PactBrokerConfig \<Rightarrow> jsstring \<Rightarrow> PactVersion list promise" where
  "getProviderPacts toLowerCase b config providerName =
     (case getLatestPacts b config of
        Inl e \<Rightarrow> Inl e
      | Inr latestPacts \<Rightarrow>
          Inr (filter (\<lambda>p. toLowerCase (name (PactVersion.provider p)) = toLowerCase providerName)
                 latestPacts))"

definition getConsumerPacts ::
  "(jsstring \<Rightarrow> jsstring) \<Rightarrow> broker \<Rightarrow> PactBrokerConfig \<Rightarrow> jsstring \<Rightarrow> PactVersion list promise" where
  "getConsumerPacts toLowerCase b config consumerName =
     (case getLatestPacts b config of
        Inl e \<Rightarrow> Inl e
      | Inr latestPacts \<Rightarrow>
          Inr (filter (\<lambda>p. toLowerCase (name (PactVersion.consumer p)) = toLowerCase consumerName)
                 latestPacts))"

definition canIDeploy ::
  "broker \<Rightarrow> PactBrokerConfig \<Rightarrow> jsstring \<Rightarrow> jsstring \<Rightarrow> jsstring \<Rightarrow> CanIDeployResponse promise" where
  "canIDeploy b config pacticipant version environment =
     GET_matrix b config pacticipant version environment"

section \<open>pact-broker-client.ts: the internal helper\<close>

text \<open>
  One turn of the outer loop of \<^verbatim>\<open>extractProviderStates\<close>: the inner loop over
  the modern \<^verbatim>\<open>providerStates\<close>, then the legacy \<^verbatim>\<open>providerState\<close>, each added
  only when truthy.
\<close>

definition addInteraction :: "Interaction \<Rightarrow> jsstring list \<Rightarrow> jsstring list" where
  "addInteraction interaction stateSet =
     (let s1 = fold (\<lambda>ps s. if name ps \<noteq> [] then Set_add (name ps) s else s)
                 (or_empty (Interaction.providerStates interaction)) stateSet
      in if truthy (providerState interaction)
         then Set_add (interp (providerState interaction)) s1
         else s1)"

definition extractProviderStates :: "Pact \<Rightarrow> jsstring list" where
  "extractProviderStates pact =
     sort (fold addInteraction (or_empty (interactions pact)) [])"

section \<open>tools.ts: schemas and tool metadata\<close>

text \<open>
  The \<^verbatim>\<open>arguments\<close> of a request: any JSON value, or \<^verbatim>\<open>undefined\<close> when the
  request carries none.
\<close>

datatype jsvalue =
    JUndefined
  | JNull
  | JBoolean bool
  | JNumber int
  | JString jsstring
  | JArray "jsvalue list"
  | JObject "(jsstring \<times> jsvalue) list"

text \<open>
  Every schema of tools.ts is a \<^verbatim>\<open>z.object\<close> whose fields are all required
  \<^verbatim>\<open>z.string()\<close>: a schema is the list of its keys, in the order declared.
\<close>

type_synonym schema = "jsstring list"

definition EmptySchema :: schema where
  "EmptySchema = []"

definition ProviderNameSchema :: schema where
  "ProviderNameSchema = [lit ''provider_name'']"

definition ConsumerNameSchema :: schema where
  "ConsumerNameSchema = [lit ''consumer_name'']"

definition PacticipantNameSchema :: schema where
  "PacticipantNameSchema = [lit ''name'']"

definition ConsumerProviderNamesSchema :: schema where
  "ConsumerProviderNamesSchema = [lit ''consumer_name'', lit ''provider_name'']"

definition ConsumerProviderConsumerVersionSchema :: schema where
  "ConsumerProviderConsumerVersionSchema =
     [lit ''consumer_name'', lit ''provider_name'', lit ''consumer_version'']"

definition ConsumerProviderPactVersionSchema :: schema where
  "ConsumerProviderPactVersionSchema =
     [lit ''consumer_name'', lit ''provider_name'', lit ''pact_version'']"

definition CanIDeploySchema :: schema where
  "CanIDeploySchema = [lit ''pacticipant'', lit ''version'', lit ''environment'']"

definition PacticipantBranchSchema :: schema where
  "PacticipantBranchSchema = [lit ''pacticipant'', lit ''branch'']"

text \<open>
  Modelled from the spec: \<^verbatim>\<open>EnvironmentSchema\<close>, which index.ts imports from
  tools.ts and no revision of tools.ts under src/ declares. The spec lists
  \<^verbatim>\<open>get_currently_deployed_versions(environment)\<close> and
  \<^verbatim>\<open>get_currently_supported_versions(environment)\<close>: one required string.
\<close>

definition EnvironmentSchema :: schema where
  "EnvironmentSchema = [lit ''environment'']"

text \<open>
  A tool's metadata: its name and its schema (the description, which only the tool
  listing prints, is left out).
\<close>

record Tool = Named +
  schema :: schema

text \<open>
  Modelled from the spec: the constants \<^verbatim>\<open>TOOL_LIST_PACTICIPANT_NAMES\<close> and
  \<^verbatim>\<open>TOOL_LIST_PROVIDER_NAMES\<close>, which index.ts imports and no revision of
  tools.ts under src/ declares; the spec names the two operations
  \<^verbatim>\<open>list_pacticipants()\<close> and \<^verbatim>\<open>list_providers()\<close>, with no argument.
\<close>

definition TOOL_LIST_PACTICIPANT_NAMES :: Tool where
  "TOOL_LIST_PACTICIPANT_NAMES = \<lparr>name = lit ''list_pacticipants'', schema = EmptySchema\<rparr>"

definition TOOL_LIST_PROVIDER_NAMES :: Tool where
  "TOOL_LIST_PROVIDER_NAMES = \<lparr>name = lit ''list_providers'', schema = EmptySchema\<rparr>"

definition TOOL_GET_PACTICIPANT :: Tool where
  "TOOL_GET_PACTICIPANT = \<lparr>name = lit ''get_pacticipant'', schema = PacticipantNameSchema\<rparr>"

definition TOOL_GET_PROVIDER_STATES :: Tool where
  "TOOL_GET_PROVIDER_STATES = \<lparr>name = lit ''get_provider_states'', schema = ProviderNameSchema\<rparr>"

definition TOOL_GET_PROVIDER_PACTS :: Tool where
  "TOOL_GET_PROVIDER_PACTS = \<lparr>name = lit ''get_provider_pacts'', schema = ProviderNameSchema\<rparr>"

definition TOOL_GET_CONSUMER_PACTS :: Tool where
  "TOOL_GET_CONSUMER_PACTS = \<lparr>name = lit ''get_consumer_pacts'', schema = ConsumerNameSchema\<rparr>"

definition TOOL_GET_PACT :: Tool where
  "TOOL_GET_PACT = \<lparr>name = lit ''get_pact'', schema = ConsumerProviderNamesSchema\<rparr>"

definition TOOL_GET_PACT_VERSION :: Tool where
  "TOOL_GET_PACT_VERSION =
     \<lparr>name = lit ''get_pact_version'', schema = ConsumerProviderConsumerVersionSchema\<rparr>"

definition TOOL_GET_LATEST_VERIFICATION_RESULTS_FOR_PACT_VERSION :: Tool where
  "TOOL_GET_LATEST_VERIFICATION_RESULTS_FOR_PACT_VERSION =
     \<lparr>name = lit ''get_latest_verification_results_for_pact_version'',
      schema = ConsumerProviderPactVersionSchema\<rparr>"

definition TOOL_GET_PREVIOUS_DISTINCT_PACT :: Tool where
  "TOOL_GET_PREVIOUS_DISTINCT_PACT =
     \<lparr>name = lit ''get_previous_distinct_pact'', schema = ConsumerProviderConsumerVersionSchema\<rparr>"

definition TOOL_CAN_I_DEPLOY :: Tool where
  "TOOL_CAN_I_DEPLOY = \<lparr>name = lit ''can_i_deploy'', schema = CanIDeploySchema\<rparr>"

definition TOOL_LIST_ENVIRONMENTS :: Tool where
  "TOOL_LIST_ENVIRONMENTS = \<lparr>name = lit ''list_environments'', schema = EmptySchema\<rparr>"

definition TOOL_GET_PACTICIPANT_BRANCHES :: Tool where
  "TOOL_GET_PACTICIPANT_BRANCHES =
     \<lparr>name = lit ''get_pacticipant_branches'', schema = PacticipantNameSchema\<rparr>"

definition TOOL_GET_PACTICIPANT_BRANCH_LATEST_VERSION :: Tool where
  "TOOL_GET_PACTICIPANT_BRANCH_LATEST_VERSION =
     \<lparr>name = lit ''get_pacticipant_branch_latest_version'', schema = PacticipantBranchSchema\<rparr>"

text \<open>
  Modelled from the spec: the constants \<^verbatim>\<open>TOOL_GET_CURRENTLY_DEPLOYED_VERSIONS\<close>
  and \<^verbatim>\<open>TOOL_GET_CURRENTLY_SUPPORTED_VERSIONS\<close>, imported by index.ts and declared
  by no revision of tools.ts under src/; the spec names the operations.
\<close>

definition TOOL_GET_CURRENTLY_DEPLOYED_VERSIONS :: Tool where
  "TOOL_GET_CURRENTLY_DEPLOYED_VERSIONS =
     \<lparr>name = lit ''get_currently_deployed_versions'', schema = EnvironmentSchema\<rparr>"

definition TOOL_GET_CURRENTLY_SUPPORTED_VERSIONS :: Tool where
  "TOOL_GET_CURRENTLY_SUPPORTED_VERSIONS =
     \<lparr>name = lit ''get_currently_supported_versions'', schema = EnvironmentSchema\<rparr>"

text \<open>The tools in the order of the \<^verbatim>\<open>switch\<close> of index.ts.\<close>

definition tools :: "Tool list" where
  "tools =
     [TOOL_LIST_PACTICIPANT_NAMES, TOOL_LIST_PROVIDER_NAMES, TOOL_GET_PACTICIPANT,
      TOOL_GET_PROVIDER_STATES, TOOL_GET_PROVIDER_PACTS, TOOL_GET_CONSUMER_PACTS,
      TOOL_GET_PACT, TOOL_GET_PACT_VERSION,
      TOOL_GET_LATEST_VERIFICATION_RESULTS_FOR_PACT_VERSION,
      TOOL_GET_PREVIOUS_DISTINCT_PACT, TOOL_CAN_I_DEPLOY, TOOL_LIST_ENVIRONMENTS,
      TOOL_GET_PACTICIPANT_BRANCHES, TOOL_GET_PACTICIPANT_BRANCH_LATEST_VERSION,
      TOOL_GET_CURRENTLY_DEPLOYED_VERSIONS, TOOL_GET_CURRENTLY_SUPPORTED_VERSIONS]"

text \<open>
  \<^verbatim>\<open>schema.parse(args)\<close> of the zod library for such a schema. A value that is
  not a plain object is one issue at the empty path; otherwise every key whose value
  is missing or not a string is one issue at that key, in the order of the schema,
  and all issues are thrown together as one \<^verbatim>\<open>ZodError\<close>. Keys the schema does
  not declare are dropped. The wording of an issue's message is the library's:
  \<open>zmsg expected received\<close>.
\<close>

definition fieldIssues ::
  "(jsstring \<Rightarrow> jsvalue \<Rightarrow> jsstring) \<Rightarrow> (jsstring \<times> jsvalue) list \<Rightarrow> jsstring \<Rightarrow> ZodIssue list" where
  "fieldIssues zmsg obj k =
     (case map_of obj k of
        Some (JString s) \<Rightarrow> []
      | Some v \<Rightarrow> [\<lparr>path = [k], message = zmsg (lit ''string'') v\<rparr>]
      | None \<Rightarrow> [\<lparr>path = [k], message = zmsg (lit ''string'') JUndefined\<rparr>])"

definition fieldValue :: "(jsstring \<times> jsvalue) list \<Rightarrow> jsstring \<Rightarrow> (jsstring \<times> jsstring) option" where
  "fieldValue obj k = (case map_of obj k of Some (JString s) \<Rightarrow> Some (k, s) | _ \<Rightarrow> None)"

definition parse ::
  "(jsstring \<Rightarrow> jsvalue \<Rightarrow> jsstring) \<Rightarrow> schema \<Rightarrow> jsvalue \<Rightarrow> (jsstring \<times> jsstring) list promise" where
  "parse zmsg keys args =
     (case args of
        JObject obj \<Rightarrow>
          (let issues = concat (map (fieldIssues zmsg obj) keys)
           in if issues = [] then Inr (List.map_filter (fieldValue obj) keys)
              else Inl (ZodError issues))
      | _ \<Rightarrow> Inl (ZodError [\<lparr>path = [], message = zmsg (lit ''object'') args\<rparr>]))"

text \<open>Reading a property of the parsed input, \<^verbatim>\<open>input.key\<close>.\<close>

definition property :: "(jsstring \<times> jsstring) list \<Rightarrow> string \<Rightarrow> jsstring option" where
  "property input k = map_of input (lit k)"

section \<open>index.ts: the dispatcher\<close>

text \<open>
  index.ts is embedded in its latest revision, the one with sixteen tools.

  Functions of the JavaScript runtime and of the zod library that the dispatcher
  calls and this repository does not define, taken as parameters:
  the wording of a zod issue (\<open>zod_message expected received\<close>),
  \<^verbatim>\<open>Buffer.from(s).toString("base64")\<close>, and \<^verbatim>\<open>JSON.stringify(v, null, 2)\<close> at the
  three types it is applied to here.
\<close>

record runtime =
  zod_message :: "jsstring \<Rightarrow> jsvalue \<Rightarrow> jsstring"
  base64 :: "jsstring \<Rightarrow> jsstring"
  stringify_names :: "Named list \<Rightarrow> jsstring"
  stringify_states :: "ProviderStateWithConsumers list \<Rightarrow> jsstring"
  stringify_verdict :: "CanIDeployResponse \<Rightarrow> jsstring"

text \<open>The variables of \<^verbatim>\<open>process.env\<close> that \<^verbatim>\<open>buildConfig\<close> reads.\<close>

record process_env =
  PACT_BROKER_BASE_URL :: "jsstring option"
  PACT_BROKER_USERNAME :: "jsstring option"
  PACT_BROKER_PASSWORD :: "jsstring option"
  PACT_BROKER_TOKEN :: "jsstring option"

definition dquote :: jsstring where
  "dquote = [0x22]"

definition newline :: jsstring where
  "newline = [0x0A]"

text \<open>\<^verbatim>\<open>s.replace(/\/$/, "")\<close>: one slash at the end of the string is removed.\<close>

definition stripTrailingSlash :: "jsstring \<Rightarrow> jsstring" where
  "stripTrailingSlash s = (if s \<noteq> [] \<and> last s = 0x2F then butlast s else s)"

definition buildConfig :: "(jsstring \<Rightarrow> jsstring) \<Rightarrow> process_env \<Rightarrow> PactBrokerConfig promise" where
  "buildConfig b64 env =
     (let brokerUrl = PACT_BROKER_BASE_URL env
      in if \<not> truthy brokerUrl
         then Inl (Error (lit ''PACT_BROKER_BASE_URL environment variable is required''))
         else
           (let username = PACT_BROKER_USERNAME env;
                password = PACT_BROKER_PASSWORD env;
                bearerToken = PACT_BROKER_TOKEN env;
                authToken =
                  (if truthy username \<and> truthy password
                   then Some (b64 (interp username @ lit '':'' @ interp password))
                   else None)
            in Inr \<lparr>brokerUrl = stripTrailingSlash (interp brokerUrl),
                     authToken = authToken,
                     bearerToken = bearerToken\<rparr>))"

text \<open>The envelope returned to the transport; \<open>isError\<close> is \<open>None\<close> when the key is absent.\<close>

record TextContent =
  type :: jsstring
  "text" :: jsstring

record CallToolResult =
  content :: "TextContent list"
  isError :: "bool option"

definition textResult :: "jsstring \<Rightarrow> CallToolResult" where
  "textResult t = \<lparr>content = [\<lparr>type = lit ''text'', text = t\<rparr>], isError = None\<rparr>"

definition errorResult :: "jsstring \<Rightarrow> CallToolResult" where
  "errorResult t = \<lparr>content = [\<lparr>type = lit ''text'', text = t\<rparr>], isError = Some True\<rparr>"

text \<open>\<^verbatim>\<open>await\<close>, and every call that can throw: the first throw ends the handler.\<close>

definition await :: "'a promise \<Rightarrow> ('a \<Rightarrow> 'b promise) \<Rightarrow> 'b promise" where
  "await m k = (case m of Inl e \<Rightarrow> Inl e | Inr v \<Rightarrow> k v)"

text \<open>A handler whose client call and projection are the registry's \<open>other_handlers\<close>.\<close>

definition otherHandler ::
  "runtime \<Rightarrow> process_env \<Rightarrow> broker \<Rightarrow> Tool \<Rightarrow> schema \<Rightarrow> jsvalue \<Rightarrow> CallToolResult promise" where
  "otherHandler rt env b tool keys args =
     await (parse (zod_message rt) keys args) (\<lambda>input.
     await (buildConfig (base64 rt) env) (\<lambda>config.
     await (other_handlers b (name tool) config input) (\<lambda>t.
     Inr (textResult t))))"

text \<open>The body of the \<^verbatim>\<open>try\<close>: the \<^verbatim>\<open>switch\<close> on the tool's name, case by case.\<close>

definition handleTool ::
  "runtime \<Rightarrow> process_env \<Rightarrow> broker \<Rightarrow> jsstring \<Rightarrow> jsvalue \<Rightarrow> CallToolResult promise" where
  "handleTool rt env b toolName args =
     (if toolName = name TOOL_LIST_PACTICIPANT_NAMES then
        await (parse (zod_message rt) EmptySchema args) (\<lambda>_.
        await (buildConfig (base64 rt) env) (\<lambda>config.
        await (listPacticipants b config) (\<lambda>pacticipants.
        Inr (textResult (stringify_names rt (map (\<lambda>p. \<lparr>name = name p\<rparr>) pacticipants))))))
      else if toolName = name TOOL_LIST_PROVIDER_NAMES then
        await (parse (zod_message rt) EmptySchema args) (\<lambda>_.
        await (buildConfig (base64 rt) env) (\<lambda>config.
        await (listProviders b config) (\<lambda>providers.
        Inr (textResult (stringify_names rt (map (\<lambda>p. \<lparr>name = name p\<rparr>) providers))))))
      else if toolName = name TOOL_GET_PACTICIPANT then
        otherHandler rt env b TOOL_GET_PACTICIPANT PacticipantNameSchema args
      else if toolName = name TOOL_GET_PROVIDER_STATES then
        await (parse (zod_message rt) ProviderNameSchema args) (\<lambda>input.
        await (buildConfig (base64 rt) env) (\<lambda>config.
        await (getProviderStates b config (interp (property input ''provider_name''))) (\<lambda>statesWithConsumer.
        if length statesWithConsumer = 0
        then Inr (textResult (lit ''No pacts found for provider '' @ dquote
                    @ interp (property input ''provider_name'') @ dquote @ lit ''.''))
        else Inr (textResult (stringify_states rt statesWithConsumer)))))
      else if toolName = name TOOL_GET_PROVIDER_PACTS then
        otherHandler rt env b TOOL_GET_PROVIDER_PACTS ProviderNameSchema args
      else if toolName = name TOOL_GET_CONSUMER_PACTS then
        otherHandler rt env b TOOL_GET_CONSUMER_PACTS ConsumerNameSchema args
      else if toolName = name TOOL_GET_PACT then
        otherHandler rt env b TOOL_GET_PACT ConsumerProviderNamesSchema args
      else if toolName = name TOOL_GET_PACT_VERSION then
        otherHandler rt env b TOOL_GET_PACT_VERSION ConsumerProviderConsumerVersionSchema args
      else if toolName = name TOOL_GET_LATEST_VERIFICATION_RESULTS_FOR_PACT_VERSION then
        otherHandler rt env b TOOL_GET_LATEST_VERIFICATION_RESULTS_FOR_PACT_VERSION ConsumerProviderPactVersionSchema args
      else if toolName = name TOOL_GET_PREVIOUS_DISTINCT_PACT then
        otherHandler rt env b TOOL_GET_PREVIOUS_DISTINCT_PACT ConsumerProviderConsumerVersionSchema args
      else if toolName = name TOOL_CAN_I_DEPLOY then
        await (parse (zod_message rt) CanIDeploySchema args) (\<lambda>input.
        await (buildConfig (base64 rt) env) (\<lambda>config.
        await (canIDeploy b config (interp (property input ''pacticipant''))
                 (interp (property input ''version'')) (interp (property input ''environment''))) (\<lambda>result.
        let deployable = Summary.deployable (summary result);
            emoji = (if deployable then [0x2705] else [0x274C]);
            status = (if deployable then lit ''CAN DEPLOY'' else lit ''CANNOT DEPLOY'')
        in Inr (textResult
                  ((emoji @ lit '' '' @ status @ newline @ newline
                     @ reason (summary result) @ newline @ newline)
                   @ stringify_verdict rt result)))))
      else if toolName = name TOOL_LIST_ENVIRONMENTS then
        otherHandler rt env b TOOL_LIST_ENVIRONMENTS EmptySchema args
      else if toolName = name TOOL_GET_PACTICIPANT_BRANCHES then
        otherHandler rt env b TOOL_GET_PACTICIPANT_BRANCHES PacticipantNameSchema args
      else if toolName = name TOOL_GET_PACTICIPANT_BRANCH_LATEST_VERSION then
        otherHandler rt env b TOOL_GET_PACTICIPANT_BRANCH_LATEST_VERSION PacticipantBranchSchema args
      else if toolName = name TOOL_GET_CURRENTLY_DEPLOYED_VERSIONS then
        otherHandler rt env b TOOL_GET_CURRENTLY_DEPLOYED_VERSIONS EnvironmentSchema args
      else if toolName = name TOOL_GET_CURRENTLY_SUPPORTED_VERSIONS then
        otherHandler rt env b TOOL_GET_CURRENTLY_SUPPORTED_VERSIONS EnvironmentSchema args
      else
        Inr (errorResult (lit ''Unknown tool: '' @ dquote @ toolName @ dquote)))"

text \<open>The message the \<^verbatim>\<open>catch\<close> block computes from what was thrown.\<close>

definition catchMessage :: "thrown \<Rightarrow> jsstring" where
  "catchMessage err =
     (case err of
        ZodError issues \<Rightarrow>
          lit ''Invalid arguments: ''
            @ join (lit '', '')
                (map (\<lambda>issue. join (lit ''.'') (path issue) @ lit '': '' @ message issue) issues)
      | Error m \<Rightarrow> m
      | NonError s \<Rightarrow> s)"

text \<open>The handler of \<^verbatim>\<open>CallToolRequestSchema\<close>: the \<^verbatim>\<open>try\<close> and its \<^verbatim>\<open>catch\<close>.\<close>

definition callTool ::
  "runtime \<Rightarrow> process_env \<Rightarrow> broker \<Rightarrow> jsstring \<Rightarrow> jsvalue \<Rightarrow> CallToolResult" where
  "callTool rt env b toolName args =
     (case handleTool rt env b toolName args of
        Inr r \<Rightarrow> r
      | Inl err \<Rightarrow> errorResult (lit ''Error: '' @ catchMessage err))"

section \<open>A reference runtime\<close>

text \<open>
  The theorems below hold for every runtime. Concrete runs need a concrete one; this
  section writes the runtime's functions out, following ECMA-262, Node's
  \<^verbatim>\<open>Buffer\<close> and the English messages of zod 4, so that examples evaluate to the
  strings a call would return.
\<close>

subsection \<open>\<^verbatim>\<open>String.prototype.toLowerCase\<close> on ASCII\<close>

text \<open>
  The letters A to Z are mapped to a to z; every other code unit is kept. This is
  \<^verbatim>\<open>toLowerCase\<close> on strings of ASCII characters.
\<close>

definition asciiToLowerCase :: "jsstring \<Rightarrow> jsstring" where
  "asciiToLowerCase s = map (\<lambda>c. if 0x41 \<le> c \<and> c \<le> 0x5A then c + 0x20 else c) s"

subsection \<open>The wording of a zod issue\<close>

definition parsedType :: "jsvalue \<Rightarrow> jsstring" where
  "parsedType v =
     (case v of
        JUndefined \<Rightarrow> lit ''undefined''
      | JNull \<Rightarrow> lit ''null''
      | JBoolean _ \<Rightarrow> lit ''boolean''
      | JNumber _ \<Rightarrow> lit ''number''
      | JString _ \<Rightarrow> lit ''string''
      | JArray _ \<Rightarrow> lit ''array''
      | JObject _ \<Rightarrow> lit ''object'')"

definition zod4Message :: "jsstring \<Rightarrow> jsvalue \<Rightarrow> jsstring" where
  "zod4Message expected received =
     lit ''Invalid input: expected '' @ expected @ lit '', received '' @ parsedType received"

subsection \<open>\<^verbatim>\<open>JSON.stringify(v, null, 2)\<close>\<close>

definition isLead :: "16 word \<Rightarrow> bool" where
  "isLead c = (0xD800 \<le> c \<and> c \<le> 0xDBFF)"

definition isTrail :: "16 word \<Rightarrow> bool" where
  "isTrail c = (0xDC00 \<le> c \<and> c \<le> 0xDFFF)"

definition hexDigit :: "nat \<Rightarrow> 16 word" where
  "hexDigit d = of_nat (if d < 10 then 48 + d else 87 + d)"

definition unicodeEscape :: "16 word \<Rightarrow> jsstring" where
  "unicodeEscape c =
     [0x5C, 0x75, hexDigit (unat c div 4096), hexDigit (unat c div 256 mod 16),
      hexDigit (unat c div 16 mod 16), hexDigit (unat c mod 16)]"

definition escapeUnit :: "16 word \<Rightarrow> jsstring" where
  "escapeUnit c =
     (if c = 0x08 then [0x5C, 0x62]
      else if c = 0x09 then [0x5C, 0x74]
      else if c = 0x0A then [0x5C, 0x6E]
      else if c = 0x0C then [0x5C, 0x66]
      else if c = 0x0D then [0x5C, 0x72]
      else if c = 0x22 then [0x5C, 0x22]
      else if c = 0x5C then [0x5C, 0x5C]
      else if c < 0x20 \<or> isLead c \<or> isTrail c then unicodeEscape c
      else [c])"

text \<open>A surrogate pair is copied; a surrogate on its own is escaped.\<close>

fun quoteUnits :: "jsstring \<Rightarrow> jsstring" where
  "quoteUnits [] = []"
| "quoteUnits [c] = escapeUnit c"
| "quoteUnits (c # d # cs) =
     (if isLead c \<and> isTrail d then c # d # quoteUnits cs
      else escapeUnit c @ quoteUnits (d # cs))"

definition quoteJSONString :: "jsstring \<Rightarrow> jsstring" where
  "quoteJSONString s = dquote @ quoteUnits s @ dquote"

fun decimal :: "nat \<Rightarrow> jsstring" where
  "decimal n = (if n < 10 then [of_nat (48 + n)] else decimal (n div 10) @ [of_nat (48 + n mod 10)])"

declare decimal.simps [simp del]

definition numberToString :: "int \<Rightarrow> jsstring" where
  "numberToString i = (if i < 0 then lit ''-'' @ decimal (nat (- i)) else decimal (nat i))"

definition gap :: jsstring where
  "gap = lit ''  ''"

definition wrapLines :: "jsstring \<Rightarrow> jsstring \<Rightarrow> jsstring \<Rightarrow> jsstring list \<Rightarrow> jsstring" where
  "wrapLines opening closing indent partial =
     (if partial = [] then opening @ closing
      else opening @ newline @ (indent @ gap)
             @ join (lit '','' @ newline @ (indent @ gap)) partial
             @ newline @ indent @ closing)"

text \<open>
  \<open>serialize indent v\<close> prints \<open>v\<close> at the indentation \<open>indent\<close>. A property
  whose value is \<^verbatim>\<open>undefined\<close> is left out of an object; in an array
  \<^verbatim>\<open>undefined\<close> prints as \<^verbatim>\<open>null\<close>.
\<close>

function serialize :: "jsstring \<Rightarrow> jsvalue \<Rightarrow> jsstring" where
  "serialize indent JUndefined = lit ''null''"
| "serialize indent JNull = lit ''null''"
| "serialize indent (JBoolean b) = (if b then lit ''true'' else lit ''false'')"
| "serialize indent (JNumber i) = numberToString i"
| "serialize indent (JString s) = quoteJSONString s"
| "serialize indent (JArray xs) =
     wrapLines (lit ''['') (lit '']'') indent (map (serialize (indent @ gap)) xs)"
| "serialize indent (JObject kvs) =
     wrapLines (lit ''{'') (lit ''}'') indent
       (map (\<lambda>kv. quoteJSONString (fst kv) @ lit '': '' @ serialize (indent @ gap) (snd kv))
          (filter (\<lambda>kv. snd kv \<noteq> JUndefined) kvs))"
  by pat_completeness auto
termination
proof (relation "measure (\<lambda>p. size (snd p))")
  show "wf (measure (\<lambda>p. size (snd p)))" by simp
next
  fix indent :: jsstring and xs :: "jsvalue list" and x
  assume "x \<in> set xs"
  then have "size x < Suc (size_list size xs)"
    by (induction xs) auto
  then show "((indent @ gap, x), (indent, JArray xs)) \<in> measure (\<lambda>p. size (snd p))"
    by simp
next
  fix indent :: jsstring and kvs :: "(jsstring \<times> jsvalue) list" and kv
  assume "kv \<in> set (filter (\<lambda>kv. snd kv \<noteq> JUndefined) kvs)"
  then have "(fst kv, snd kv) \<in> set kvs" by simp
  then have "size (snd kv) < Suc (size_list (size_prod (\<lambda>x. 0) size) kvs)"
    by (induction kvs) auto
  then show "((indent @ gap, snd kv), (indent, JObject kvs)) \<in> measure (\<lambda>p. size (snd p))"
    by simp
qed

definition JSON_stringify :: "jsvalue \<Rightarrow> jsstring" where
  "JSON_stringify v = serialize [] v"

text \<open>The objects that are printed, property by property.\<close>

definition optional :: "('a \<Rightarrow> jsvalue) \<Rightarrow> 'a option \<Rightarrow> jsvalue" where
  "optional f v = (case v of None \<Rightarrow> JUndefined | Some x \<Rightarrow> f x)"

definition jsonOfNamed :: "Named \<Rightarrow> jsvalue" where
  "jsonOfNamed n = JObject [(lit ''name'', JString (name n))]"

definition jsonOfState :: "ProviderStateWithConsumers \<Rightarrow> jsvalue" where
  "jsonOfState st =
     JObject [(lit ''name'', JString (name st)),
              (lit ''consumers'', JArray (map JString (consumers st)))]"

definition jsonOfParty :: "VersionedParty \<Rightarrow> jsvalue" where
  "jsonOfParty p =
     JObject [(lit ''name'', JString (name p)),
              (lit ''version'', JObject [(lit ''number'', JString (number (party_version p)))])]"

definition jsonOfRow :: "MatrixRow \<Rightarrow> jsvalue" where
  "jsonOfRow r =
     JObject [(lit ''consumer'', jsonOfParty (MatrixRow.consumer r)),
              (lit ''provider'', jsonOfParty (MatrixRow.provider r)),
              (lit ''verificationResult'',
                 optional (\<lambda>v. JObject [(lit ''success'', JBoolean (success v)),
                                         (lit ''verifiedAt'', optional JString (verifiedAt v))])
                   (verificationResult r)),
              (lit ''pact'',
                 optional (\<lambda>p. JObject [(lit ''createdAt'', optional JString (MatrixPact.createdAt p))])
                   (row_pact r))]"

definition jsonOfVerdict :: "CanIDeployResponse \<Rightarrow> jsvalue" where
  "jsonOfVerdict r =
     JObject [(lit ''summary'',
                 JObject [(lit ''deployable'', JBoolean (deployable (summary r))),
                          (lit ''reason'', JString (reason (summary r))),
                          (lit ''unknown'', optional JNumber (unknown (summary r)))]),
              (lit ''matrix'', optional (\<lambda>rows. JArray (map jsonOfRow rows)) (matrix r))]"

subsection \<open>\<^verbatim>\<open>Buffer.from(s).toString("base64")\<close>\<close>

text \<open>The string as code points (a surrogate on its own is U+FFFD), then as UTF-8.\<close>

definition scalar :: "16 word \<Rightarrow> nat" where
  "scalar c = (if isLead c \<or> isTrail c then 0xFFFD else unat c)"

fun codePoints :: "jsstring \<Rightarrow> nat list" where
  "codePoints [] = []"
| "codePoints [c] = [scalar c]"
| "codePoints (c # d # cs) =
     (if isLead c \<and> isTrail d
      then (0x10000 + (unat c - 0xD800) * 0x400 + (unat d - 0xDC00)) # codePoints cs
      else scalar c # codePoints (d # cs))"

definition utf8 :: "nat \<Rightarrow> nat list" where
  "utf8 cp =
     (if cp < 0x80 then [cp]
      else if cp < 0x800 then [0xC0 + cp div 64, 0x80 + cp mod 64]
      else if cp < 0x10000 then [0xE0 + cp div 4096, 0x80 + cp div 64 mod 64, 0x80 + cp mod 64]
      else [0xF0 + cp div 262144, 0x80 + cp div 4096 mod 64, 0x80 + cp div 64 mod 64,
            0x80 + cp mod 64])"

definition base64Char :: "nat \<Rightarrow> 16 word" where
  "base64Char n =
     (if n < 26 then of_nat (65 + n)
      else if n < 52 then of_nat (71 + n)
      else if n < 62 then of_nat (n - 4)
      else if n = 62 then 0x2B
      else 0x2F)"

fun base64Bytes :: "nat list \<Rightarrow> jsstring" where
  "base64Bytes [] = []"
| "base64Bytes [a] = [base64Char (a div 4), base64Char (a mod 4 * 16), 0x3D, 0x3D]"
| "base64Bytes [a, b] =
     [base64Char (a div 4), base64Char (a mod 4 * 16 + b div 16), base64Char (b mod 16 * 4), 0x3D]"
| "base64Bytes (a # b # c # r) =
     [base64Char (a div 4), base64Char (a mod 4 * 16 + b div 16),
      base64Char (b mod 16 * 4 + c div 64), base64Char (c mod 64)] @ base64Bytes r"

definition toBase64 :: "jsstring \<Rightarrow> jsstring" where
  "toBase64 s = base64Bytes (concat (map utf8 (codePoints s)))"

subsection \<open>The runtime\<close>

definition nodeRuntime :: runtime where
  "nodeRuntime =
     \<lparr>zod_message = zod4Message,
      base64 = toBase64,
      stringify_names = (\<lambda>ns. JSON_stringify (JArray (map jsonOfNamed ns))),
      stringify_states = (\<lambda>sts. JSON_stringify (JArray (map jsonOfState sts))),
      stringify_verdict = (\<lambda>r. JSON_stringify (jsonOfVerdict r))\<rparr>"

section \<open>What the specification says, for comparison\<close>

text \<open>
  Every state name that a pact mentions: for each interaction the names of the
  entries of its modern list, then its legacy name when it has one.
\<close>

definition stateNames :: "Interaction \<Rightarrow> jsstring list" where
  "stateNames interaction =
     map name (or_empty (Interaction.providerStates interaction))
       @ (case providerState interaction of None \<Rightarrow> [] | Some s \<Rightarrow> [s])"

definition allStateNames :: "Pact \<Rightarrow> jsstring set" where
  "allStateNames pact = set (concat (map stateNames (or_empty (interactions pact))))"

text \<open>
  The message \<^verbatim>\<open>Invalid arguments: <field>: <reason>[, ...]\<close>: every issue as its
  path joined by dots, a colon and its message, the issues joined by commas.
\<close>

definition invalidArgumentsMessage :: "ZodIssue list \<Rightarrow> jsstring" where
  "invalidArgumentsMessage issues =
     lit ''Invalid arguments: ''
       @ join (lit '', '')
           (map (\<lambda>issue. join (lit ''.'') (path issue) @ lit '': '' @ message issue) issues)"

section \<open>Example data\<close>

definition pacticipantNamed :: "string \<Rightarrow> Pacticipant" where
  "pacticipantNamed n =
     \<lparr>name = lit n, displayName = None, repositoryUrl = None, repositoryName = None,
      mainBranch = None, Pacticipant.createdAt = None, updatedAt = None\<rparr>"

definition rawPactBetween :: "string \<Rightarrow> string \<Rightarrow> LatestPactRawResponse" where
  "rawPactBetween c p =
     \<lparr>LatestPactRawResponse.createdAt = None,
      LatestPactRawResponse.embedded =
        \<lparr>RawEmbedded.consumer = \<lparr>name = lit c\<rparr>, RawEmbedded.provider = \<lparr>name = lit p\<rparr>\<rparr>,
      LatestPactRawResponse.links_self = []\<rparr>"

definition pactBetween :: "string \<Rightarrow> string \<Rightarrow> PactVersion" where
  "pactBetween c p =
     \<lparr>PactVersion.consumer = \<lparr>name = lit c\<rparr>, PactVersion.provider = \<lparr>name = lit p\<rparr>,
      pactUrl = [], PactVersion.createdAt = None,
      PactVersion.links_self = \<lparr>href = [], link_name = None, title = None\<rparr>\<rparr>"

definition exampleConfig :: PactBrokerConfig where
  "exampleConfig = \<lparr>brokerUrl = lit ''http://broker'', authToken = None, bearerToken = None\<rparr>"

definition exampleEnv :: process_env where
  "exampleEnv =
     \<lparr>PACT_BROKER_BASE_URL = Some (lit ''http://broker/''), PACT_BROKER_USERNAME = None,
      PACT_BROKER_PASSWORD = None, PACT_BROKER_TOKEN = None\<rparr>"

definition cannotDeploy :: CanIDeployResponse where
  "cannotDeploy =
     \<lparr>summary = \<lparr>deployable = False, reason = lit ''r'', unknown = None\<rparr>, matrix = None\<rparr>"

definition canDeploy :: CanIDeployResponse where
  "canDeploy =
     \<lparr>summary = \<lparr>deployable = True, reason = lit ''All required verification results are published and successful'',
                 unknown = Some 0\<rparr>,
      matrix = Some []\<rparr>"

definition statesOfB :: "ProviderStateWithConsumers list" where
  "statesOfB = [\<lparr>name = lit ''a user exists'', consumers = [lit ''A'']\<rparr>]"

text \<open>
  A registry with the pacticipants A, B and C and one latest pact, of consumer A with
  provider B. Provider B has one provider state, any other provider has none. Version
  1.2.3 of \<^verbatim>\<open>svc\<close> cannot be deployed to \<^verbatim>\<open>prod\<close>; anything else can.
\<close>

definition exampleBroker :: broker where
  "exampleBroker =
     \<lparr>GET_pacticipants = (\<lambda>config.
        Inr \<lparr>PacticipantsBody.embedded = Some \<lparr>pacticipants =
               Some [pacticipantNamed ''A'', pacticipantNamed ''B'', pacticipantNamed ''C'']\<rparr>\<rparr>),
      GET_pacts_latest = (\<lambda>config. Inr \<lparr>pacts = Some [rawPactBetween ''A'' ''B'']\<rparr>),
      GET_provider_states = (\<lambda>config providerName.
        Inr \<lparr>ProviderStatesResponse.providerStates =
               Some (if providerName = lit ''B'' then statesOfB else [])\<rparr>),
      GET_matrix = (\<lambda>config pacticipant version environment.
        Inr (if pacticipant = lit ''svc'' \<and> version = lit ''1.2.3'' \<and> environment = lit ''prod''
             then cannotDeploy else canDeploy)),
      other_handlers = (\<lambda>tool config input.
        Inl (Error (lit ''Pact Broker request failed: 404 Not Found'')))\<rparr>"

text \<open>
  A registry whose pacticipant \<^verbatim>\<open>orders\<close> is written \<^verbatim>\<open>Orders\<close> in its only pact.
\<close>

definition mixedCaseBroker :: broker where
  "mixedCaseBroker =
     exampleBroker
       \<lparr>GET_pacticipants := (\<lambda>config.
          Inr \<lparr>PacticipantsBody.embedded = Some \<lparr>pacticipants =
                 Some [pacticipantNamed ''web'', pacticipantNamed ''orders'']\<rparr>\<rparr>),
        GET_pacts_latest := (\<lambda>config. Inr \<lparr>pacts = Some [rawPactBetween ''web'' ''Orders'']\<rparr>)\<rparr>"

text \<open>
  The pact of the specification's example: one interaction with the legacy state
  \<^verbatim>\<open>a\<close>, another with the modern states \<^verbatim>\<open>b\<close> and \<^verbatim>\<open>a\<close>.
\<close>

definition legacyAndModernPact :: Pact where
  "legacyAndModernPact =
     \<lparr>Pact.consumer = \<lparr>name = lit ''C''\<rparr>, Pact.provider = \<lparr>name = lit ''P''\<rparr>,
      interactions = Some
        [\<lparr>description = lit ''first'', Interaction.providerStates = None,
          providerState = Some (lit ''a'')\<rparr>,
         \<lparr>description = lit ''second'',
          Interaction.providerStates =
            Some [\<lparr>name = lit ''b'', params = None\<rparr>, \<lparr>name = lit ''a'', params = None\<rparr>],
          providerState = None\<rparr>]\<rparr>"

text \<open>A pact whose only interaction has one modern state, of the empty name.\<close>

definition emptyNamePact :: Pact where
  "emptyNamePact =
     \<lparr>Pact.consumer = \<lparr>name = lit ''C''\<rparr>, Pact.provider = \<lparr>name = lit ''P''\<rparr>,
      interactions = Some
        [\<lparr>description = lit ''first'',
          Interaction.providerStates = Some [\<lparr>name = [], params = None\<rparr>],
          providerState = None\<rparr>]\<rparr>"

text \<open>A pact with an empty modern name and an empty legacy name beside a real one.\<close>

definition emptyAndRealPact :: Pact where
  "emptyAndRealPact =
     \<lparr>Pact.consumer = \<lparr>name = lit ''C''\<rparr>, Pact.provider = \<lparr>name = lit ''P''\<rparr>,
      interactions = Some
        [\<lparr>description = lit ''first'',
          Interaction.providerStates =
            Some [\<lparr>name = [], params = None\<rparr>, \<lparr>name = lit ''ready'', params = None\<rparr>],
          providerState = Some []\<rparr>]\<rparr>"

definition svcArgs :: jsvalue where
  "svcArgs =
     JObject [(lit ''pacticipant'', JString (lit ''svc'')), (lit ''version'', JString (lit ''1.2.3'')),
              (lit ''environment'', JString (lit ''prod''))]"

section \<open>Helper lemmas\<close>

lemmas tool_defs =
  TOOL_LIST_PACTICIPANT_NAMES_def TOOL_LIST_PROVIDER_NAMES_def TOOL_GET_PACTICIPANT_def
  TOOL_GET_PROVIDER_STATES_def TOOL_GET_PROVIDER_PACTS_def TOOL_GET_CONSUMER_PACTS_def
  TOOL_GET_PACT_def TOOL_GET_PACT_VERSION_def
  TOOL_GET_LATEST_VERIFICATION_RESULTS_FOR_PACT_VERSION_def
  TOOL_GET_PREVIOUS_DISTINCT_PACT_def TOOL_CAN_I_DEPLOY_def TOOL_LIST_ENVIRONMENTS_def
  TOOL_GET_PACTICIPANT_BRANCHES_def TOOL_GET_PACTICIPANT_BRANCH_LATEST_VERSION_def
  TOOL_GET_CURRENTLY_DEPLOYED_VERSIONS_def TOOL_GET_CURRENTLY_SUPPORTED_VERSIONS_def

lemmas schema_defs =
  EmptySchema_def ProviderNameSchema_def ConsumerNameSchema_def PacticipantNameSchema_def
  ConsumerProviderNamesSchema_def ConsumerProviderConsumerVersionSchema_def
  ConsumerProviderPactVersionSchema_def CanIDeploySchema_def PacticipantBranchSchema_def
  EnvironmentSchema_def

lemmas example_defs =
  exampleBroker_def mixedCaseBroker_def exampleConfig_def exampleEnv_def pacticipantNamed_def
  rawPactBetween_def pactBetween_def cannotDeploy_def canDeploy_def statesOfB_def svcArgs_def

subsection \<open>The Set of JavaScript\<close>

lemma set_fold_Set_add: "set (fold Set_add xs s) = set xs \<union> set s"
  by (induction xs arbitrary: s) (auto simp: Set_add_def)

lemma distinct_fold_Set_add: "distinct s \<Longrightarrow> distinct (fold Set_add xs s)"
  by (induction xs arbitrary: s) (auto simp: Set_add_def)

lemma Set_has_new_Set: "Set_has (new_Set xs) x \<longleftrightarrow> x \<in> set xs"
  by (simp add: Set_has_def new_Set_def set_fold_Set_add)

lemma distinct_new_Set: "distinct (new_Set xs)"
  by (simp add: new_Set_def distinct_fold_Set_add)

subsection \<open>The client\<close>

lemma Set_has_provider_names:
  "Set_has (new_Set (map (\<lambda>p. name (PactVersion.provider p)) latestPacts)) n
     \<longleftrightarrow> (\<exists>q \<in> set latestPacts. name (PactVersion.provider q) = n)"
  by (auto simp: Set_has_new_Set)

lemma listProviders_filter:
  assumes "listPacticipants b config = Inr allPacticipants"
    and "getLatestPacts b config = Inr latestPacts"
  shows "listProviders b config =
           Inr (filter (\<lambda>p. \<exists>q \<in> set latestPacts. name (PactVersion.provider q) = name p)
                  allPacticipants)"
  using assms by (simp add: listProviders_def Set_has_provider_names)

lemma example_listPacticipants:
  "listPacticipants exampleBroker exampleConfig
     = Inr [pacticipantNamed ''A'', pacticipantNamed ''B'', pacticipantNamed ''C'']"
  by (simp add: listPacticipants_def exampleBroker_def or_empty_def)

lemma example_getLatestPacts:
  "getLatestPacts exampleBroker exampleConfig = Inr [pactBetween ''A'' ''B'']"
  by (simp add: getLatestPacts_def exampleBroker_def or_empty_def transformRawPact_def
      rawPactBetween_def pactBetween_def)

lemma mixedCase_listPacticipants:
  "listPacticipants mixedCaseBroker exampleConfig
     = Inr [pacticipantNamed ''web'', pacticipantNamed ''orders'']"
  by (simp add: listPacticipants_def mixedCaseBroker_def or_empty_def)

lemma mixedCase_getLatestPacts:
  "getLatestPacts mixedCaseBroker exampleConfig = Inr [pactBetween ''web'' ''Orders'']"
  by (simp add: getLatestPacts_def mixedCaseBroker_def or_empty_def transformRawPact_def
      rawPactBetween_def pactBetween_def)

subsection \<open>The extraction of provider states\<close>

lemma set_inner_fold:
  "set (fold (\<lambda>ps s. if name ps \<noteq> [] then Set_add (name ps) s else s) xs s0)
     = (set (map name xs) - {[]}) \<union> set s0"
  by (induction xs arbitrary: s0) (auto simp: Set_add_def)

lemma distinct_inner_fold:
  "distinct s0 \<Longrightarrow>
   distinct (fold (\<lambda>ps s. if name ps \<noteq> [] then Set_add (name ps) s else s) xs s0)"
  by (induction xs arbitrary: s0) (auto simp: Set_add_def)

lemma set_addInteraction:
  "set (addInteraction i s) = (set (stateNames i) - {[]}) \<union> set s"
  by (auto simp: addInteraction_def stateNames_def set_inner_fold Set_add_def truthy_def
      interp_def Let_def split: option.splits)

lemma distinct_addInteraction: "distinct s \<Longrightarrow> distinct (addInteraction i s)"
  by (auto simp: addInteraction_def distinct_inner_fold Set_add_def Let_def)

lemma set_fold_addInteraction:
  "set (fold addInteraction ints s) = (set (concat (map stateNames ints)) - {[]}) \<union> set s"
  by (induction ints arbitrary: s) (auto simp: set_addInteraction)

lemma distinct_fold_addInteraction:
  "distinct s \<Longrightarrow> distinct (fold addInteraction ints s)"
  by (induction ints arbitrary: s) (auto simp: distinct_addInteraction)

lemma set_extractProviderStates:
  "set (extractProviderStates pact) = allStateNames pact - {[]}"
  by (simp add: extractProviderStates_def allStateNames_def set_fold_addInteraction)

lemma emptyNamePact_names: "allStateNames emptyNamePact = {[]}"
  by (simp add: allStateNames_def emptyNamePact_def stateNames_def or_empty_def)

lemma emptyNamePact_extract: "extractProviderStates emptyNamePact = []"
  by (simp add: extractProviderStates_def emptyNamePact_def addInteraction_def or_empty_def
      truthy_def)

subsection \<open>The dispatcher\<close>

lemma callTool_thrown:
  "handleTool rt env b toolName args = Inl err \<Longrightarrow>
   callTool rt env b toolName args = errorResult (lit ''Error: '' @ catchMessage err)"
  by (simp add: callTool_def)

lemma callTool_returned:
  "handleTool rt env b toolName args = Inr r \<Longrightarrow> callTool rt env b toolName args = r"
  by (simp add: callTool_def)

lemma catchMessage_ZodError: "catchMessage (ZodError issues) = invalidArgumentsMessage issues"
  by (simp add: catchMessage_def invalidArgumentsMessage_def)

lemma handleTool_unknown:
  assumes "toolName \<notin> name ` set tools"
  shows "handleTool rt env b toolName args
           = Inr (errorResult (lit ''Unknown tool: '' @ dquote @ toolName @ dquote))"
  using assms by (simp add: tools_def handleTool_def)

lemma handleTool_invalid:
  assumes "tool \<in> set tools"
    and "parse (zod_message rt) (schema tool) args = Inl (ZodError issues)"
  shows "handleTool rt env b (name tool) args = Inl (ZodError issues)"
  using assms unfolding tools_def
  apply (simp only: set_simps insert_iff empty_iff)
  apply (elim disjE)
  apply (simp_all add: handleTool_def otherHandler_def await_def tool_defs lit_def)
  done

lemma handleTool_get_provider_states:
  "handleTool rt env b (lit ''get_provider_states'') args =
     await (parse (zod_message rt) ProviderNameSchema args) (\<lambda>input.
     await (buildConfig (base64 rt) env) (\<lambda>config.
     await (getProviderStates b config (interp (property input ''provider_name''))) (\<lambda>statesWithConsumer.
     if length statesWithConsumer = 0
     then Inr (textResult (lit ''No pacts found for provider '' @ dquote
                 @ interp (property input ''provider_name'') @ dquote @ lit ''.''))
     else Inr (textResult (stringify_states rt statesWithConsumer)))))"
  by (simp add: handleTool_def tool_defs lit_def)

lemma handleTool_can_i_deploy:
  "handleTool rt env b (lit ''can_i_deploy'') args =
     await (parse (zod_message rt) CanIDeploySchema args) (\<lambda>input.
     await (buildConfig (base64 rt) env) (\<lambda>config.
     await (canIDeploy b config (interp (property input ''pacticipant''))
              (interp (property input ''version'')) (interp (property input ''environment''))) (\<lambda>result.
     let deployable = Summary.deployable (summary result);
         emoji = (if deployable then [0x2705] else [0x274C]);
         status = (if deployable then lit ''CAN DEPLOY'' else lit ''CANNOT DEPLOY'')
     in Inr (textResult
               ((emoji @ lit '' '' @ status @ newline @ newline
                  @ reason (summary result) @ newline @ newline)
                @ stringify_verdict rt result)))))"
  by (simp add: handleTool_def tool_defs lit_def)

lemma parse_ProviderNameSchema:
  assumes "map_of kvs (lit ''provider_name'') = Some (JString x)"
  shows "parse zmsg ProviderNameSchema (JObject kvs) = Inr [(lit ''provider_name'', x)]"
  using assms
  by (simp add: parse_def ProviderNameSchema_def fieldIssues_def fieldValue_def
      List.map_filter_simps)

lemma parse_CanIDeploySchema:
  assumes "map_of kvs (lit ''pacticipant'') = Some (JString p)"
    and "map_of kvs (lit ''version'') = Some (JString v)"
    and "map_of kvs (lit ''environment'') = Some (JString e)"
  shows "parse zmsg CanIDeploySchema (JObject kvs)
           = Inr [(lit ''pacticipant'', p), (lit ''version'', v), (lit ''environment'', e)]"
  using assms
  by (simp add: parse_def CanIDeploySchema_def fieldIssues_def fieldValue_def
      List.map_filter_simps)

lemma example_buildConfig: "buildConfig b64 exampleEnv = Inr exampleConfig"
  by (simp add: buildConfig_def exampleEnv_def exampleConfig_def truthy_def interp_def
      stripTrailingSlash_def lit_def)

section \<open>The claims\<close>

subsection \<open>listProviders\<close>

text \<open>
  C1. Whenever the registry returns a list of pacticipants and a list of latest
  pacts, \<open>listProviders\<close> returns exactly the sub-list of the pacticipants, in their
  order, whose name is the provider name of at least one latest pact. The instance
  that follows is the example of the specification: pacticipants A, B and C and one latest pact of
  consumer A with provider B give exactly B.
\<close>

theorem listProviders_exact:
  assumes "listPacticipants b config = Inr allPacticipants"
    and "getLatestPacts b config = Inr latestPacts"
  shows "listProviders b config =
           Inr (filter (\<lambda>p. \<exists>q \<in> set latestPacts. name (PactVersion.provider q) = name p)
                  allPacticipants)"
  using assms by (simp add: listProviders_def Set_has_provider_names)

theorem listProviders_exact_witness:
  "listPacticipants exampleBroker exampleConfig
     = Inr [pacticipantNamed ''A'', pacticipantNamed ''B'', pacticipantNamed ''C'']
   \<and> getLatestPacts exampleBroker exampleConfig = Inr [pactBetween ''A'' ''B'']
   \<and> listProviders exampleBroker exampleConfig = Inr [pacticipantNamed ''B'']"
proof -
  have "listProviders exampleBroker exampleConfig = Inr [pacticipantNamed ''B'']"
    using listProviders_exact [OF example_listPacticipants example_getLatestPacts]
    by (simp add: pacticipantNamed_def pactBetween_def lit_def)
  then show ?thesis
    by (simp add: example_listPacticipants example_getLatestPacts)
qed

text \<open>
  C9. A pacticipant is among the providers that \<open>listProviders\<close> returns exactly when
  it is among the pacticipants and some latest pact's provider name equals its name,
  code unit for code unit. In the instance that follows the pacticipant \<^verbatim>\<open>orders\<close> is the provider
  \<^verbatim>\<open>Orders\<close> of the only pact: the two names agree once in lower case, and
  \<open>listProviders\<close> returns nothing.
\<close>

theorem listProviders_case_sensitive:
  assumes "listPacticipants b config = Inr allPacticipants"
    and "getLatestPacts b config = Inr latestPacts"
  shows "\<exists>providers. listProviders b config = Inr providers
           \<and> (\<forall>p. p \<in> set providers \<longleftrightarrow>
                  p \<in> set allPacticipants
                  \<and> (\<exists>q \<in> set latestPacts. name (PactVersion.provider q) = name p))"
  using listProviders_filter [OF assms] by auto

theorem listProviders_case_sensitive_witness:
  "asciiToLowerCase (lit ''Orders'') = asciiToLowerCase (lit ''orders'')
   \<and> listPacticipants mixedCaseBroker exampleConfig
       = Inr [pacticipantNamed ''web'', pacticipantNamed ''orders'']
   \<and> getLatestPacts mixedCaseBroker exampleConfig = Inr [pactBetween ''web'' ''Orders'']
   \<and> listProviders mixedCaseBroker exampleConfig = Inr []"
proof -
  obtain providers where p: "listProviders mixedCaseBroker exampleConfig = Inr providers"
    and m: "\<And>p. p \<in> set providers \<longleftrightarrow>
              p \<in> set [pacticipantNamed ''web'', pacticipantNamed ''orders'']
              \<and> (\<exists>q \<in> set [pactBetween ''web'' ''Orders'']. name (PactVersion.provider q) = name p)"
    using listProviders_case_sensitive [OF mixedCase_listPacticipants mixedCase_getLatestPacts]
    by blast
  have "p \<notin> set providers" for p
    by (auto simp: m pacticipantNamed_def pactBetween_def lit_def)
  then have "providers = []"
    by (cases providers) auto
  with p show ?thesis
    by (simp add: mixedCase_listPacticipants mixedCase_getLatestPacts asciiToLowerCase_def lit_def)
qed

subsection \<open>getProviderPacts and getConsumerPacts\<close>

text \<open>
  C8. Whenever the registry returns the list of latest pacts, \<open>getProviderPacts\<close>
  returns exactly the pacts, in their order, whose provider name and the argument
  are equal after \<^verbatim>\<open>toLowerCase\<close>, and \<open>getConsumerPacts\<close> exactly those whose
  consumer name and the argument are.
\<close>

theorem pacts_filtered_ignoring_case:
  assumes "getLatestPacts b config = Inr latestPacts"
  shows "getProviderPacts toLowerCase b config n =
           Inr (filter (\<lambda>p. toLowerCase (name (PactVersion.provider p)) = toLowerCase n) latestPacts)
         \<and> getConsumerPacts toLowerCase b config n =
           Inr (filter (\<lambda>p. toLowerCase (name (PactVersion.consumer p)) = toLowerCase n) latestPacts)"
  using assms by (simp add: getProviderPacts_def getConsumerPacts_def)

theorem pacts_filtered_ignoring_case_witness:
  "getLatestPacts mixedCaseBroker exampleConfig = Inr [pactBetween ''web'' ''Orders'']
   \<and> getProviderPacts asciiToLowerCase mixedCaseBroker exampleConfig (lit ''ORDERS'')
       = Inr [pactBetween ''web'' ''Orders'']
   \<and> getConsumerPacts asciiToLowerCase mixedCaseBroker exampleConfig (lit ''ORDERS'') = Inr []"
  using pacts_filtered_ignoring_case [OF mixedCase_getLatestPacts, of asciiToLowerCase "lit ''ORDERS''"]
  by (simp add: mixedCase_getLatestPacts pactBetween_def asciiToLowerCase_def lit_def)

subsection \<open>buildHeaders\<close>

text \<open>
  C7. A credential is configured when it is present and not the empty string (the
  test of the code is its truthiness). With a bearer token configured the
  \<^verbatim>\<open>Authorization\<close> header is \<^verbatim>\<open>Bearer <token>\<close>, whatever the basic credential is;
  with only a basic credential configured it is \<^verbatim>\<open>Basic <token>\<close>; with neither there
  is no \<^verbatim>\<open>Authorization\<close> header.
\<close>

theorem buildHeaders_Authorization:
  "(bearerToken config = Some bearer \<and> bearer \<noteq> [] \<longrightarrow>
      buildHeaders config (lit ''Authorization'') = Some (lit ''Bearer '' @ bearer))
   \<and> (\<not> truthy (bearerToken config) \<and> authToken config = Some basic \<and> basic \<noteq> [] \<longrightarrow>
      buildHeaders config (lit ''Authorization'') = Some (lit ''Basic '' @ basic))
   \<and> (\<not> truthy (bearerToken config) \<and> \<not> truthy (authToken config) \<longrightarrow>
      buildHeaders config (lit ''Authorization'') = None)"
  by (simp add: buildHeaders_def truthy_def interp_def lit_def)

theorem buildHeaders_Authorization_witness:
  "buildHeaders \<lparr>brokerUrl = lit ''http://broker'', authToken = Some (lit ''dXNlcjpwYXNz''),
                 bearerToken = Some (lit ''tok'')\<rparr> (lit ''Authorization'')
     = Some (lit ''Bearer tok'')
   \<and> buildHeaders \<lparr>brokerUrl = lit ''http://broker'', authToken = Some (lit ''dXNlcjpwYXNz''),
                   bearerToken = None\<rparr> (lit ''Authorization'')
     = Some (lit ''Basic dXNlcjpwYXNz'')
   \<and> buildHeaders \<lparr>brokerUrl = lit ''http://broker'', authToken = None,
                   bearerToken = Some []\<rparr> (lit ''Authorization'')
     = None"
  using
    buildHeaders_Authorization [of "\<lparr>brokerUrl = lit ''http://broker'',
      authToken = Some (lit ''dXNlcjpwYXNz''), bearerToken = Some (lit ''tok'')\<rparr>" "lit ''tok''"]
    buildHeaders_Authorization [of "\<lparr>brokerUrl = lit ''http://broker'',
      authToken = Some (lit ''dXNlcjpwYXNz''), bearerToken = None\<rparr>" _ "lit ''dXNlcjpwYXNz''"]
    buildHeaders_Authorization [of "\<lparr>brokerUrl = lit ''http://broker'',
      authToken = None, bearerToken = Some []\<rparr>"]
  by (simp add: truthy_def lit_def)

subsection \<open>extractProviderStates\<close>

text \<open>
  C2, as the specification states it, would make the elements of the result the names
  of all entries and all legacy fields, \<open>allStateNames\<close>. The code leaves the empty
  name out: for the pact whose only state has the empty name the result is empty.
\<close>

theorem extractProviderStates_all_names_counterexample:
  "set (extractProviderStates emptyNamePact) \<noteq> allStateNames emptyNamePact"
  by (simp add: emptyNamePact_names emptyNamePact_extract)

text \<open>
  C2, amended. For every pact the result holds exactly the non-empty names among the
  names of the entries of each interaction's modern list and each interaction's
  legacy field; it is sorted in the order of the code units, and without duplicates.
  The instance that follows is the example of the specification: the result is \<^verbatim>\<open>["a","b"]\<close>.
\<close>

theorem extractProviderStates_sorted_names:
  "set (extractProviderStates pact) = allStateNames pact - {[]}
   \<and> sorted (extractProviderStates pact)
   \<and> distinct (extractProviderStates pact)"
  by (simp add: set_extractProviderStates)
     (simp add: extractProviderStates_def distinct_fold_addInteraction)

theorem extractProviderStates_sorted_names_witness:
  "allStateNames legacyAndModernPact = {lit ''a'', lit ''b''}
   \<and> extractProviderStates legacyAndModernPact = [lit ''a'', lit ''b'']"
proof -
  have n: "allStateNames legacyAndModernPact = {lit ''a'', lit ''b''}"
    by (auto simp: allStateNames_def legacyAndModernPact_def stateNames_def or_empty_def)
  have "[] \<noteq> lit ''a''" and "[] \<noteq> lit ''b''" and "lit ''a'' < lit ''b''"
    by (simp_all add: lit_def)
  moreover from extractProviderStates_sorted_names [of legacyAndModernPact]
  have "set (extractProviderStates legacyAndModernPact) = {lit ''a'', lit ''b''} - {[]}"
    and "sorted (extractProviderStates legacyAndModernPact)"
    and "distinct (extractProviderStates legacyAndModernPact)"
    by (simp_all add: n)
  ultimately have "extractProviderStates legacyAndModernPact = [lit ''a'', lit ''b'']"
    by (intro sorted_distinct_set_unique) auto
  with n show ?thesis by simp
qed

text \<open>
  C10. The empty string is never an element of the result, also when it is the name of
  a modern entry or the legacy field of an interaction: in the instance that follows
  both are empty,
  and the result is the one other name.
\<close>

theorem extractProviderStates_no_empty_name:
  "[] \<notin> set (extractProviderStates pact)"
  by (simp add: set_extractProviderStates)

theorem extractProviderStates_no_empty_name_witness:
  "[] \<in> allStateNames emptyAndRealPact
   \<and> [] \<notin> set (extractProviderStates emptyAndRealPact)
   \<and> extractProviderStates emptyAndRealPact = [lit ''ready'']"
  using extractProviderStates_no_empty_name [of emptyAndRealPact]
  by (simp add: allStateNames_def stateNames_def extractProviderStates_def emptyAndRealPact_def
      addInteraction_def or_empty_def truthy_def Set_add_def lit_def)

subsection \<open>The dispatcher\<close>

text \<open>
  C3. A \<^verbatim>\<open>can_i_deploy\<close> invocation succeeds when its three arguments are strings,
  the base URL is configured and the registry answers. Its envelope is then no error,
  and its text is the verdict line (the check mark U+2705 and \<^verbatim>\<open>CAN DEPLOY\<close> when the
  summary's \<^verbatim>\<open>deployable\<close> is true, the cross U+274C and \<^verbatim>\<open>CANNOT DEPLOY\<close> when it
  is false), an empty line, the summary's reason, an empty line, and the JSON of the
  whole verdict. In the instance that follows the verdict is \<^verbatim>\<open>deployable: false\<close> with reason
  \<^verbatim>\<open>r\<close>, and the text is written out line by line.
\<close>

theorem can_i_deploy_text:
  assumes "map_of kvs (lit ''pacticipant'') = Some (JString p)"
    and "map_of kvs (lit ''version'') = Some (JString v)"
    and "map_of kvs (lit ''environment'') = Some (JString e)"
    and "buildConfig (base64 rt) env = Inr config"
    and "canIDeploy b config p v e = Inr result"
  shows "callTool rt env b (lit ''can_i_deploy'') (JObject kvs) =
           \<lparr>content =
              [\<lparr>type = lit ''text'',
                text =
                  (if deployable (summary result) then [0x2705] @ lit '' CAN DEPLOY''
                   else [0x274C] @ lit '' CANNOT DEPLOY'')
                  @ newline @ newline @ reason (summary result) @ newline @ newline
                  @ stringify_verdict rt result\<rparr>],
            isError = None\<rparr>"
proof -
  have "handleTool rt env b (lit ''can_i_deploy'') (JObject kvs) =
          Inr (textResult
                 ((if deployable (summary result) then [0x2705] @ lit '' CAN DEPLOY''
                   else [0x274C] @ lit '' CANNOT DEPLOY'')
                  @ newline @ newline @ reason (summary result) @ newline @ newline
                  @ stringify_verdict rt result))"
    using assms(4,5) unfolding handleTool_can_i_deploy
    by (simp add: parse_CanIDeploySchema [OF assms(1,2,3)] await_def property_def interp_def
        lit_def)
  then show ?thesis
    by (simp add: callTool_def textResult_def)
qed

theorem can_i_deploy_text_witness:
  "callTool nodeRuntime exampleEnv exampleBroker (lit ''can_i_deploy'') svcArgs =
     \<lparr>content =
        [\<lparr>type = lit ''text'',
          text = join newline
            [[0x274C] @ lit '' CANNOT DEPLOY'',
             [],
             lit ''r'',
             [],
             lit ''{'',
             lit ''  '' @ dquote @ lit ''summary'' @ dquote @ lit '': {'',
             lit ''    '' @ dquote @ lit ''deployable'' @ dquote @ lit '': false,'',
             lit ''    '' @ dquote @ lit ''reason'' @ dquote @ lit '': '' @ dquote @ lit ''r'' @ dquote,
             lit ''  }'',
             lit ''}'']\<rparr>],
      isError = None\<rparr>"
proof -
  have a: "map_of [(lit ''pacticipant'', JString (lit ''svc'')), (lit ''version'', JString (lit ''1.2.3'')),
             (lit ''environment'', JString (lit ''prod''))] (lit ''pacticipant'') = Some (JString (lit ''svc''))"
    and b: "map_of [(lit ''pacticipant'', JString (lit ''svc'')), (lit ''version'', JString (lit ''1.2.3'')),
             (lit ''environment'', JString (lit ''prod''))] (lit ''version'') = Some (JString (lit ''1.2.3''))"
    and c: "map_of [(lit ''pacticipant'', JString (lit ''svc'')), (lit ''version'', JString (lit ''1.2.3'')),
             (lit ''environment'', JString (lit ''prod''))] (lit ''environment'') = Some (JString (lit ''prod''))"
    by (simp_all add: lit_def)
  have d: "canIDeploy exampleBroker exampleConfig (lit ''svc'') (lit ''1.2.3'') (lit ''prod'')
             = Inr cannotDeploy"
    by (simp add: canIDeploy_def exampleBroker_def)
  have j: "stringify_verdict nodeRuntime cannotDeploy =
     join newline
       [lit ''{'',
        lit ''  '' @ dquote @ lit ''summary'' @ dquote @ lit '': {'',
        lit ''    '' @ dquote @ lit ''deployable'' @ dquote @ lit '': false,'',
        lit ''    '' @ dquote @ lit ''reason'' @ dquote @ lit '': '' @ dquote @ lit ''r'' @ dquote,
        lit ''  }'',
        lit ''}'']"
    by (simp add: nodeRuntime_def JSON_stringify_def jsonOfVerdict_def cannotDeploy_def
        optional_def wrapLines_def quoteJSONString_def escapeUnit_def isLead_def isTrail_def
        gap_def dquote_def newline_def lit_def)
  show ?thesis
    using can_i_deploy_text [OF a b c example_buildConfig d, of nodeRuntime]
    by (simp add: svcArgs_def j) (simp add: cannotDeploy_def)
qed

text \<open>
  C4. A \<^verbatim>\<open>get_provider_states\<close> invocation whose \<^verbatim>\<open>provider_name\<close> is the string X,
  with the base URL configured and an answer from the registry, returns an envelope
  that is no error. When the collection of provider states is empty its text is
  \<^verbatim>\<open>No pacts found for provider "X".\<close>, which is not the empty JSON array
  \<^verbatim>\<open>[]\<close>; when the collection is not empty its text is the JSON of the collection.
\<close>

theorem get_provider_states_text:
  assumes "map_of kvs (lit ''provider_name'') = Some (JString x)"
    and "buildConfig (base64 rt) env = Inr config"
    and "getProviderStates b config x = Inr states"
  shows "callTool rt env b (lit ''get_provider_states'') (JObject kvs) =
           \<lparr>content =
              [\<lparr>type = lit ''text'',
                text =
                  (if states = []
                   then lit ''No pacts found for provider '' @ dquote @ x @ dquote @ lit ''.''
                   else stringify_states rt states)\<rparr>],
            isError = None\<rparr>
         \<and> lit ''No pacts found for provider '' @ dquote @ x @ dquote @ lit ''.'' \<noteq> lit ''[]''"
proof -
  have "handleTool rt env b (lit ''get_provider_states'') (JObject kvs) =
          Inr (textResult
                 (if states = []
                  then lit ''No pacts found for provider '' @ dquote @ x @ dquote @ lit ''.''
                  else stringify_states rt states))"
    using assms(2,3) unfolding handleTool_get_provider_states
    by (simp add: parse_ProviderNameSchema [OF assms(1)] await_def property_def interp_def)
  then show ?thesis
    by (simp add: callTool_def textResult_def lit_def)
qed

theorem get_provider_states_text_witness:
  "callTool nodeRuntime exampleEnv exampleBroker (lit ''get_provider_states'')
     (JObject [(lit ''provider_name'', JString (lit ''X''))]) =
     \<lparr>content =
        [\<lparr>type = lit ''text'',
          text = lit ''No pacts found for provider '' @ dquote @ lit ''X'' @ dquote @ lit ''.''\<rparr>],
      isError = None\<rparr>
   \<and> callTool nodeRuntime exampleEnv exampleBroker (lit ''get_provider_states'')
     (JObject [(lit ''provider_name'', JString (lit ''B''))]) =
     \<lparr>content =
        [\<lparr>type = lit ''text'',
          text = join newline
            [lit ''['',
             lit ''  {'',
             lit ''    '' @ dquote @ lit ''name'' @ dquote @ lit '': '' @ dquote @ lit ''a user exists'' @ dquote @ lit '','',
             lit ''    '' @ dquote @ lit ''consumers'' @ dquote @ lit '': ['',
             lit ''      '' @ dquote @ lit ''A'' @ dquote,
             lit ''    ]'',
             lit ''  }'',
             lit '']'']\<rparr>],
      isError = None\<rparr>"
proof -
  have x: "map_of [(lit ''provider_name'', JString (lit ''X''))] (lit ''provider_name'')
             = Some (JString (lit ''X''))"
    and y: "map_of [(lit ''provider_name'', JString (lit ''B''))] (lit ''provider_name'')
             = Some (JString (lit ''B''))"
    by simp_all
  have sx: "getProviderStates exampleBroker exampleConfig (lit ''X'') = Inr []"
    and sy: "getProviderStates exampleBroker exampleConfig (lit ''B'') = Inr statesOfB"
    by (simp_all add: getProviderStates_def exampleBroker_def or_empty_def lit_def)
  have j: "stringify_states nodeRuntime statesOfB =
     join newline
       [lit ''['',
        lit ''  {'',
        lit ''    '' @ dquote @ lit ''name'' @ dquote @ lit '': '' @ dquote @ lit ''a user exists'' @ dquote @ lit '','',
        lit ''    '' @ dquote @ lit ''consumers'' @ dquote @ lit '': ['',
        lit ''      '' @ dquote @ lit ''A'' @ dquote,
        lit ''    ]'',
        lit ''  }'',
        lit '']'']"
    by (simp add: nodeRuntime_def JSON_stringify_def jsonOfState_def statesOfB_def
        wrapLines_def quoteJSONString_def escapeUnit_def isLead_def isTrail_def
        gap_def dquote_def newline_def lit_def)
  have ne: "statesOfB \<noteq> []"
    by (simp add: statesOfB_def)
  show ?thesis
    using get_provider_states_text [OF x example_buildConfig sx, of nodeRuntime]
      get_provider_states_text [OF y example_buildConfig sy, of nodeRuntime]
    by (simp add: j ne)
qed

text \<open>
  C5, as the specification states it, would make the text of the envelope the message
  \<^verbatim>\<open>Invalid arguments: <field>: <reason>[, ...]\<close> itself. The \<^verbatim>\<open>catch\<close> block writes
  \<^verbatim>\<open>Error: \<close> before the message: for \<^verbatim>\<open>get_pacticipant\<close> called with no
  \<^verbatim>\<open>name\<close>, validation fails with one issue at \<^verbatim>\<open>name\<close>, and the envelope is not
  the one whose text is that message.
\<close>

theorem invalid_arguments_message_counterexample:
  "parse (zod_message nodeRuntime) PacticipantNameSchema (JObject [])
     = Inl (ZodError [\<lparr>path = [lit ''name''],
                      message = lit ''Invalid input: expected string, received undefined''\<rparr>])
   \<and> callTool nodeRuntime exampleEnv exampleBroker (lit ''get_pacticipant'') (JObject [])
     \<noteq> \<lparr>content =
          [\<lparr>type = lit ''text'',
            text = invalidArgumentsMessage
                     [\<lparr>path = [lit ''name''],
                       message = lit ''Invalid input: expected string, received undefined''\<rparr>]\<rparr>],
        isError = Some True\<rparr>"
  by (simp add: callTool_def handleTool_def otherHandler_def await_def tool_defs
      PacticipantNameSchema_def parse_def fieldIssues_def nodeRuntime_def zod4Message_def
      parsedType_def catchMessage_def invalidArgumentsMessage_def errorResult_def lit_def)

text \<open>
  C5, amended. For every tool and every arguments that fail the validation against
  the tool's schema, the envelope has the error flag set and its text is
  \<^verbatim>\<open>Error: Invalid arguments: <field>: <reason>[, ...]\<close>, every issue joined by a comma
  and a space. In the instance that follows \<^verbatim>\<open>get_pacticipant\<close> is called with no \<^verbatim>\<open>name\<close>; the
  text names the field \<^verbatim>\<open>name\<close>.
\<close>

theorem invalid_arguments_envelope:
  assumes "tool \<in> set tools"
    and "parse (zod_message rt) (schema tool) args = Inl (ZodError issues)"
  shows "callTool rt env b (name tool) args =
           \<lparr>content = [\<lparr>type = lit ''text'', text = lit ''Error: '' @ invalidArgumentsMessage issues\<rparr>],
            isError = Some True\<rparr>"
  using callTool_thrown [OF handleTool_invalid [OF assms]]
  by (simp add: catchMessage_ZodError errorResult_def)

theorem invalid_arguments_envelope_witness:
  "TOOL_GET_PACTICIPANT \<in> set tools
   \<and> parse (zod_message nodeRuntime) (schema TOOL_GET_PACTICIPANT) (JObject [])
       = Inl (ZodError [\<lparr>path = [lit ''name''],
                        message = lit ''Invalid input: expected string, received undefined''\<rparr>])
   \<and> callTool nodeRuntime exampleEnv exampleBroker (lit ''get_pacticipant'') (JObject [])
       = \<lparr>content =
            [\<lparr>type = lit ''text'',
              text = lit ''Error: Invalid arguments: name: Invalid input: expected string, received undefined''\<rparr>],
          isError = Some True\<rparr>"
proof -
  have t: "TOOL_GET_PACTICIPANT \<in> set tools"
    by (simp add: tools_def)
  have p: "parse (zod_message nodeRuntime) (schema TOOL_GET_PACTICIPANT) (JObject [])
             = Inl (ZodError [\<lparr>path = [lit ''name''],
                              message = lit ''Invalid input: expected string, received undefined''\<rparr>])"
    by (simp add: TOOL_GET_PACTICIPANT_def PacticipantNameSchema_def parse_def fieldIssues_def
        nodeRuntime_def zod4Message_def parsedType_def lit_def)
  show ?thesis
    using invalid_arguments_envelope [OF t p, of exampleEnv exampleBroker]
    by (simp add: t p) (simp add: TOOL_GET_PACTICIPANT_def invalidArgumentsMessage_def lit_def)
qed

text \<open>
  C6. For every name that is the name of no tool, the \<^verbatim>\<open>switch\<close> returns (it does not
  throw), and the envelope has the error flag set and the text
  \<^verbatim>\<open>Unknown tool: "<name>"\<close>, the name as it was given.
\<close>

theorem unknown_tool_envelope:
  assumes "toolName \<notin> name ` set tools"
  shows "handleTool rt env b toolName args = Inr (callTool rt env b toolName args)
         \<and> callTool rt env b toolName args =
             \<lparr>content = [\<lparr>type = lit ''text'', text = lit ''Unknown tool: '' @ dquote @ toolName @ dquote\<rparr>],
              isError = Some True\<rparr>"
  using handleTool_unknown [OF assms]
  by (simp add: callTool_def errorResult_def)

theorem unknown_tool_envelope_witness:
  "lit ''delete_pact'' \<notin> name ` set tools
   \<and> callTool nodeRuntime exampleEnv exampleBroker (lit ''delete_pact'') JUndefined =
       \<lparr>content = [\<lparr>type = lit ''text'', text = lit ''Unknown tool: '' @ dquote @ lit ''delete_pact'' @ dquote\<rparr>],
        isError = Some True\<rparr>"
proof -
  have n: "lit ''delete_pact'' \<notin> name ` set tools"
    by (simp add: tools_def tool_defs lit_def)
  show ?thesis
    using unknown_tool_envelope [OF n, of nodeRuntime exampleEnv exampleBroker JUndefined]
    by (simp add: n)
qed

end
